theory Spec2Isabelle
  imports
    Complex_Main
    "HOL-Library.AList"
    "HOL-Library.Multiset"
    "HOL-Library.Char_ord"
    "HOL-Library.List_Lexorder"
    "HOL-Library.Sublist"
begin

section \<open>The Python runtime the exporter relies on\<close>

text \<open>
  The exporter \<^verbatim>\<open>io_export_egg.py\<close> is a Blender add-on. Its functions are embedded
  here one by one, under their own names (a leading underscore is dropped, since an
  Isabelle name cannot start with one). An exception is a value: a function that can
  raise returns \<open>py_error + 'a\<close>, with \<open>Inl\<close> for the exception.
\<close>

datatype py_error =
  KeyError | IndexError | TypeError | NameError | UnboundLocalError | AttributeError

text \<open>Sequencing of two computations, the second one skipped when the first raises.\<close>

fun and_then :: "py_error + 'a \<Rightarrow> ('a \<Rightarrow> py_error + 'b) \<Rightarrow> py_error + 'b" where
  "and_then (Inl e) f = Inl e"
| "and_then (Inr v) f = f v"

text \<open>A \<^verbatim>\<open>for x in xs: body\<close> loop over a state, left at the first exception.\<close>

fun for_each :: "('a \<Rightarrow> 's \<Rightarrow> py_error + 's) \<Rightarrow> 'a list \<Rightarrow> 's \<Rightarrow> py_error + 's" where
  "for_each body [] s = Inr s"
| "for_each body (v # vs) s = and_then (body v s) (for_each body vs)"

text \<open>\<^verbatim>\<open>xs[i]\<close> for a non-negative index: IndexError out of range.\<close>

definition list_get :: "'a list \<Rightarrow> nat \<Rightarrow> py_error + 'a" where
  "list_get xs i = (if i < length xs then Inr (xs ! i) else Inl IndexError)"

subsection \<open>Dictionaries\<close>

text \<open>
  A \<^verbatim>\<open>dict\<close> is an association list with distinct keys, in insertion order:
  \<^verbatim>\<open>d[k] = v\<close> is \<^const>\<open>AList.update\<close> (the value is replaced where the key
  is, a new key goes last), \<^verbatim>\<open>k in d\<close> is membership among the keys, \<^verbatim>\<open>d[k]\<close>
  raises KeyError for a missing key and iteration follows the list.
\<close>

type_synonym ('k, 'v) dict = "('k \<times> 'v) list"

definition dict_get :: "('k, 'v) dict \<Rightarrow> 'k \<Rightarrow> py_error + 'v" where
  "dict_get d k = (case map_of d k of None \<Rightarrow> Inl KeyError | Some v \<Rightarrow> Inr v)"

definition dict_has :: "('k, 'v) dict \<Rightarrow> 'k \<Rightarrow> bool" where
  "dict_has d k = (k \<in> set (map fst d))"

subsection \<open>Strings and number formatting\<close>

text \<open>\<^verbatim>\<open>s.replace(old, new)\<close> for one-character arguments.\<close>

definition str_replace :: "char \<Rightarrow> char \<Rightarrow> string \<Rightarrow> string" where
  "str_replace old new s = map (\<lambda>c. if c = old then new else c) s"

text \<open>\<^verbatim>\<open>s.split(sep)\<close> for a one-character separator; the result is never empty.\<close>

fun str_split :: "char \<Rightarrow> string \<Rightarrow> string list" where
  "str_split sep [] = [[]]"
| "str_split sep (c # cs) =
     (if c = sep then [] # str_split sep cs
      else (case str_split sep cs of
              [] \<Rightarrow> [[c]]
            | w # ws \<Rightarrow> (c # w) # ws))"

definition digit_char :: "int \<Rightarrow> char" where
  "digit_char d = char_of (48 + d)"

text \<open>\<^verbatim>\<open>'%d' % n\<close> for a non-negative integer.\<close>

function str_int :: "int \<Rightarrow> string" where
  "str_int n = (if n < 10 then [digit_char n] else str_int (n div 10) @ [digit_char (n mod 10)])"
  by pat_completeness auto
termination
  by (relation "measure nat") auto

declare str_int.simps [simp del]

text \<open>The last \<open>p\<close> decimal digits of \<open>n\<close>, with leading zeros.\<close>

fun pad_digits :: "nat \<Rightarrow> int \<Rightarrow> string" where
  "pad_digits 0 n = []"
| "pad_digits (Suc p) n = pad_digits p (n div 10) @ [digit_char (n mod 10)]"

text \<open>
  A Python float is modelled by the rational number it denotes (infinities and NaN,
  which a scene does not hold, are left out; arithmetic is exact). The conversions
  \<^verbatim>\<open>'%.pf' % v\<close> and \<^verbatim>\<open>'{0:.pf}'.format(v)\<close> print the value rounded to \<open>p\<close>
  decimal places, a tie going to the even neighbour, and keep the sign of a negative
  value that rounds to zero.
\<close>

definition round_half_even :: "rat \<Rightarrow> int" where
  "round_half_even q =
     (let f = \<lfloor>q\<rfloor>; r = q - of_int f
      in if r < 1 / 2 then f else if 1 / 2 < r then f + 1 else if even f then f else f + 1)"

definition fmt_f :: "nat \<Rightarrow> rat \<Rightarrow> string" where
  "fmt_f p q =
     (let n = round_half_even (\<bar>q\<bar> * 10 ^ p)
      in (if q < 0 then ''-'' else '''') @ str_int (n div 10 ^ p) @
         (if p = 0 then '''' else ''.'' @ pad_digits p (n mod 10 ^ p)))"

text \<open>\<^verbatim>\<open>'%s' % v\<close> for a value that is a string or None.\<close>

definition fmt_s :: "string option \<Rightarrow> string" where
  "fmt_s v = (case v of None \<Rightarrow> ''None'' | Some s \<Rightarrow> s)"

text \<open>\<^verbatim>\<open>indent_level * ' '\<close>.\<close>

definition spaces :: "nat \<Rightarrow> string" where
  "spaces n = replicate n (CHR '' '')"

subsection \<open>\<^verbatim>\<open>os.path\<close> on a POSIX system\<close>

text \<open>
  \<^verbatim>\<open>basename(p)\<close> is what follows the last slash, \<^verbatim>\<open>dirname(p)\<close> what precedes
  it (without trailing slashes, unless it consists of slashes only).
  \<^verbatim>\<open>splitext(p)\<close> cuts the base name at its last dot, provided a character other than
  a dot stands before that dot in the base name.
\<close>

definition basename :: "string \<Rightarrow> string" where
  "basename p = rev (takeWhile (\<lambda>c. c \<noteq> CHR ''/'') (rev p))"

definition dirname :: "string \<Rightarrow> string" where
  "dirname p =
     (let head = rev (dropWhile (\<lambda>c. c \<noteq> CHR ''/'') (rev p))
      in if head \<noteq> [] \<and> head \<noteq> replicate (length head) (CHR ''/'')
         then rev (dropWhile (\<lambda>c. c = CHR ''/'') (rev head)) else head)"

definition splitext :: "string \<Rightarrow> string \<times> string" where
  "splitext p =
     (let fname = basename p;
          root = rev (drop 1 (dropWhile (\<lambda>c. c \<noteq> CHR ''.'') (rev fname)))
      in if CHR ''.'' \<in> set fname \<and> (\<exists>c \<in> set root. c \<noteq> CHR ''.'')
         then (take (length p - length fname) p @ root, drop (length root) fname)
         else (p, []))"

definition isabs :: "string \<Rightarrow> bool" where
  "isabs p = (case p of [] \<Rightarrow> False | c # _ \<Rightarrow> c = CHR ''/'')"

definition join :: "string \<Rightarrow> string \<Rightarrow> string" where
  "join a b =
     (if isabs b then b
      else if a = [] \<or> last a = CHR ''/'' then a @ b
      else a @ ''/'' @ b)"

text \<open>\<^verbatim>\<open>sep.join(comps)\<close>.\<close>

fun sep_join :: "string list \<Rightarrow> string" where
  "sep_join [] = []"
| "sep_join [c] = c"
| "sep_join (c # cs) = c @ ''/'' @ sep_join cs"

text \<open>The loop of \<^verbatim>\<open>normpath\<close> over the components; \<open>ini\<close> tells an absolute path.\<close>

fun norm_comps :: "bool \<Rightarrow> string list \<Rightarrow> string list \<Rightarrow> string list" where
  "norm_comps ini new_comps [] = new_comps"
| "norm_comps ini new_comps (cmp # comps) =
     (if cmp = [] \<or> cmp = ''.'' then norm_comps ini new_comps comps
      else if cmp \<noteq> ''..'' \<or> (\<not> ini \<and> new_comps = []) \<or>
              (new_comps \<noteq> [] \<and> last new_comps = ''..'')
      then norm_comps ini (new_comps @ [cmp]) comps
      else if new_comps \<noteq> [] then norm_comps ini (butlast new_comps) comps
      else norm_comps ini new_comps comps)"

definition normpath :: "string \<Rightarrow> string" where
  "normpath path =
     (if path = [] then ''.''
      else
        (let initial_slashes =
               (if \<not> isabs path then 0
                else if take 2 path = ''//'' \<and> take 3 path \<noteq> ''///'' then 2 else (1::nat));
             comps = norm_comps (initial_slashes \<noteq> 0) [] (str_split (CHR ''/'') path);
             res = replicate initial_slashes (CHR ''/'') @ sep_join comps
         in if res = [] then ''.'' else res))"

text \<open>\<^verbatim>\<open>abspath\<close> and \<^verbatim>\<open>relpath\<close> read the working directory \<open>cwd\<close>.\<close>

definition abspath :: "string \<Rightarrow> string \<Rightarrow> string" where
  "abspath cwd path = normpath (if isabs path then path else join cwd path)"

fun commonprefix_len :: "'a list \<Rightarrow> 'a list \<Rightarrow> nat" where
  "commonprefix_len (a # as) (b # bs) = (if a = b then Suc (commonprefix_len as bs) else 0)"
| "commonprefix_len _ _ = 0"

definition relpath :: "string \<Rightarrow> string \<Rightarrow> string \<Rightarrow> string" where
  "relpath cwd path start =
     (let start_list = filter (\<lambda>c. c \<noteq> []) (str_split (CHR ''/'') (abspath cwd start));
          path_list = filter (\<lambda>c. c \<noteq> []) (str_split (CHR ''/'') (abspath cwd path));
          i = commonprefix_len start_list path_list;
          rel_list = replicate (length start_list - i) ''..'' @ drop i path_list
      in if rel_list = [] then ''.'' else foldl join (hd rel_list) (tl rel_list))"

section \<open>Name sanitizers\<close>

definition good_file_name :: "string \<Rightarrow> string" where
  "good_file_name filepath =
     (let filename = basename filepath;
          name = fst (splitext filename)
      in str_replace (CHR ''-'') (CHR ''_'') (str_replace (CHR '' '') (CHR ''_'') name))"

definition good_bone_name :: "string \<Rightarrow> string" where
  "good_bone_name bone_name =
     str_replace (CHR ''-'') (CHR ''_'') (str_replace (CHR ''.'') (CHR ''_'') bone_name)"

definition good_mesh_name :: "string \<Rightarrow> string" where
  "good_mesh_name mesh_name = last (str_split (CHR '':'') mesh_name)"

definition good_texture_name :: "string \<Rightarrow> string" where
  "good_texture_name filepath =
     (let texfile = basename filepath in str_replace (CHR ''.'') (CHR ''_'') texfile)"

definition good_material_name :: "string \<Rightarrow> string" where
  "good_material_name material_name =
     last (str_split (CHR '':'') (str_replace (CHR '' '') (CHR ''_'') material_name))"

section \<open>The scene, as the exporter reads it\<close>

text \<open>
  The scene objects of Blender are read-only records with the attributes the exporter
  reads. An attribute that may be \<^verbatim>\<open>None\<close> is an option.
\<close>

datatype Vector = Vector (vec_x: rat) (vec_y: rat) (vec_z: rat)

text \<open>\<^verbatim>\<open>a - b\<close> on vectors.\<close>

definition vec_sub :: "Vector \<Rightarrow> Vector \<Rightarrow> Vector" where
  "vec_sub a b = Vector (vec_x a - vec_x b) (vec_y a - vec_y b) (vec_z a - vec_z b)"

record Color =
  col_r :: rat
  col_g :: rat
  col_b :: rat

record Image =
  img_filepath :: string
  img_source :: string
  img_colorspace_name :: string
  img_use_alpha :: bool

record Texture =
  tex_name :: string
  tex_type :: string
  tex_image :: "Image option"
  tex_extension :: string
  tex_repeat_x :: int
  tex_repeat_y :: int

record TextureSlot =
  ts_texture :: "Texture option"
  ts_texture_coords :: string
  ts_mapping :: string

record Material =
  mat_name :: string
  mat_diffuse_color :: Color
  mat_specular_color :: Color
  mat_specular_alpha :: rat
  mat_ambient :: rat
  mat_emit :: rat
  mat_specular_hardness :: rat
  mat_texture_slots :: "TextureSlot option list"

text \<open>An element of \<^verbatim>\<open>vertex.groups\<close>: a group index and the weight in that group.\<close>

record VertexGroupElement =
  vge_group :: nat
  vge_weight :: rat

record MeshVertex =
  mv_index :: nat
  mv_co :: Vector
  mv_normal :: Vector
  mv_groups :: "VertexGroupElement list"

record MeshLoop =
  ml_vertex_index :: nat

record MeshPolygon =
  mp_index :: nat
  mp_material_index :: nat
  mp_loop_indices :: "nat list"

text \<open>
  The BMesh view of a mesh (\<^verbatim>\<open>bmesh.new(); bm.from_mesh(mesh)\<close>): per vertex the
  face corners that meet there, each with its UV coordinate in the active UV layer and
  the material index of its face. \<^verbatim>\<open>bm.loops.layers.uv.active\<close> is None for a mesh
  without UV layer, and indexing a loop by None raises TypeError.
\<close>

datatype BMLayerItem = UVLayer

record BMLoop =
  bl_uv :: "rat \<times> rat"
  bl_face_material_index :: nat

record BMVert =
  bv_link_loops :: "BMLoop list"

record Mesh =
  me_name :: string
  me_vertices :: "MeshVertex list"
  me_polygons :: "MeshPolygon list"
  me_loops :: "MeshLoop list"
  me_materials :: "Material option list"
  me_uv_active :: "BMLayerItem option"
  me_bm_verts :: "BMVert list"

text \<open>A child object of the armature; \<open>obj_vertex_groups\<close> are the names of its vertex groups.\<close>

record Object =
  obj_name :: string
  obj_type :: string
  obj_data :: Mesh
  obj_vertex_groups :: "string list"
  obj_active_material :: "Material option"

text \<open>
  A bone with its subtree. \<open>parent\<close> is \<^verbatim>\<open>bone.parent\<close>, of which the exporter reads
  the head position only.
\<close>

record BoneRef =
  ref_name :: string
  ref_head_local :: Vector

datatype Bone =
  Bone (bone_name: string) (head_local: Vector) (parent: "BoneRef option") (children: "Bone list")

text \<open>The armature object (\<^verbatim>\<open>self._human\<close>): its children and \<^verbatim>\<open>human.data.bones\<close>.\<close>

record Armature =
  arm_children :: "Object list"
  arm_bones :: "Bone list"

text \<open>
  What the exporter reads from the operating system and from Blender's global data:
  the file system (\<^verbatim>\<open>os.path.realpath\<close>, \<^verbatim>\<open>os.path.exists\<close>, whether
  \<^verbatim>\<open>os.mkdir\<close>, \<^verbatim>\<open>codecs.open\<close> and \<^verbatim>\<open>image.save_render\<close> succeed), the working
  directory, the path of the blend file and \<^verbatim>\<open>bpy.data.objects\<close>.
\<close>

record Env =
  os_realpath :: "string \<Rightarrow> string"
  os_exists :: "string \<Rightarrow> bool"
  os_mkdir_ok :: "string \<Rightarrow> bool"
  os_open_ok :: "string \<Rightarrow> bool"
  os_cwd :: string
  save_render_ok :: "string \<Rightarrow> string \<Rightarrow> bool"
  blend_filepath :: string
  bpy_objects :: "string \<Rightarrow> Object option"

section \<open>The export worker\<close>

text \<open>
  The attributes of \<^verbatim>\<open>ExportEggWorker\<close>, and the two effects outside it: the lines
  printed and the calls of \<^verbatim>\<open>image.save_render\<close> made (source path, destination).
  \<open>self_egg_fp\<close> holds what has been written to the output stream, one entry per call
  of \<^verbatim>\<open>write\<close>, and is None when the stream could not be opened.
  \<open>self_vertex_weight_precision\<close> is the number \<open>p\<close> of the format \<^verbatim>\<open>'{0:.pf}'\<close>.
\<close>

record ExportEggWorker =
  self_use_rel_paths :: bool
  self_human :: Armature
  self_vertex_weight_precision :: nat
  self_copied_files :: "(string, bool) dict"
  self_egg_fp :: "string list option"
  self_tex_folder :: "string option"
  self_outFolder :: string
  self_separate_tex_folder :: string
  self_filepath :: string
  self_filename :: string
  stdout :: "string list"
  save_render_calls :: "(string \<times> string) list"

definition py_print :: "string \<Rightarrow> ExportEggWorker \<Rightarrow> ExportEggWorker" where
  "py_print line s = s\<lparr>stdout := stdout s @ [line]\<rparr>"

text \<open>\<^verbatim>\<open>self._egg_fp.write(text)\<close>: AttributeError when the stream is None.\<close>

definition fp_write :: "string \<Rightarrow> ExportEggWorker \<Rightarrow> py_error + ExportEggWorker" where
  "fp_write text s =
     (case self_egg_fp s of
        None \<Rightarrow> Inl AttributeError
      | Some chunks \<Rightarrow> Inr (s\<lparr>self_egg_fp := Some (chunks @ [text])\<rparr>))"

text \<open>The double and the single quote.\<close>

definition dq :: string where
  "dq = [CHR 0x22]"

definition sq :: string where
  "sq = [CHR 0x27]"

subsection \<open>Construction and the texture folder\<close>

text \<open>
  When the folder cannot be created, the handler's
  \<^verbatim>\<open>print('Unable to create separate folder:' % folder)\<close> raises TypeError itself
  (the format has no conversion for its argument), so \<^verbatim>\<open>return None\<close> is never reached.
\<close>

definition get_sub_folder :: "Env \<Rightarrow> ExportEggWorker \<Rightarrow> py_error + string" where
  "get_sub_folder env s =
     (let folder = join (self_outFolder s) (self_separate_tex_folder s)
      in if \<not> os_exists env folder
         then (if os_mkdir_ok env folder then Inr folder else Inl TypeError)
         else Inr folder)"

definition setup_tex_folder :: "Env \<Rightarrow> ExportEggWorker \<Rightarrow> py_error + ExportEggWorker" where
  "setup_tex_folder env s =
     (let s1 = s\<lparr>self_outFolder := os_realpath env (dirname (self_filepath s))\<rparr>
      in and_then (get_sub_folder env s1) (\<lambda>folder. Inr (s1\<lparr>self_tex_folder := Some folder\<rparr>)))"

text \<open>\<^verbatim>\<open>ExportEggWorker.__init__\<close>.\<close>

definition init ::
  "Env \<Rightarrow> Armature \<Rightarrow> nat \<Rightarrow> string \<Rightarrow> bool \<Rightarrow> py_error + ExportEggWorker" where
  "init env human weight_precision filepath use_rel_paths =
     setup_tex_folder env
       \<lparr>self_use_rel_paths = True,
        self_human = human,
        self_vertex_weight_precision = weight_precision,
        self_copied_files = [],
        self_egg_fp = None,
        self_tex_folder = None,
        self_outFolder = '''',
        self_separate_tex_folder = ''textures'',
        self_filepath = filepath,
        self_filename = good_file_name filepath,
        stdout = [],
        save_render_calls = []\<rparr>"

subsection \<open>Texture asset relocation\<close>

definition copy_texture_to_new_location ::
  "Env \<Rightarrow> Image \<Rightarrow> ExportEggWorker \<Rightarrow> py_error + (string \<times> ExportEggWorker)" where
  "copy_texture_to_new_location env img s =
     (let filepath = img_filepath img;
          filename = basename filepath
      in case self_tex_folder s of
           None \<Rightarrow> Inl TypeError
         | Some folder \<Rightarrow>
             (let newpath = abspath (os_cwd env) (join folder filename);
                  done = dict_has (self_copied_files s) filepath;
                  s1 = (if \<not> done
                        then (let s' = s\<lparr>save_render_calls :=
                                          save_render_calls s @ [(filepath, newpath)]\<rparr>;
                                  s'' = (if save_render_ok env filepath newpath then s'
                                         else py_print (''Unable to copy '' @ sq @ filepath @ sq @
                                                        '' -> '' @ sq @ newpath @ sq) s')
                              in s''\<lparr>self_copied_files :=
                                       AList.update filepath True (self_copied_files s'')\<rparr>)
                        else s)
              in if self_use_rel_paths s1
                 then Inr (normpath (relpath (os_cwd env) newpath (self_outFolder s1)), s1)
                 else Inr (newpath, s1)))"

subsection \<open>Texture and material records\<close>

text \<open>
  In the branch of an unrecognised colour space the argument of \<^verbatim>\<open>print\<close> reads the
  name \<^verbatim>\<open>colorspace_settings\<close>, which is bound nowhere: NameError, before anything is
  printed.
\<close>

definition get_image_format :: "Image \<Rightarrow> py_error + string" where
  "get_image_format img =
     (let colorspaceName = img_colorspace_name img
      in if colorspaceName = ''sRGB''
         then (let retVal = ''RGB'' in Inr (if img_use_alpha img then retVal @ ''A'' else retVal))
         else Inl NameError)"

definition get_texture_wrap_u ::
  "Texture \<Rightarrow> ExportEggWorker \<Rightarrow> string option \<times> ExportEggWorker" where
  "get_texture_wrap_u texture s =
     (if tex_extension texture = ''REPEAT'' \<and> tex_repeat_x texture = 1 then (Some ''repeat'', s)
      else (None, py_print (''undefined extension '' @ tex_extension texture @ '' '' @
                            ''for texture image '' @ tex_name texture @ '', '' @
                            ''texture.repeat_x='' @ fmt_f 6 (of_int (tex_repeat_x texture))) s))"

definition get_texture_wrap_v ::
  "Texture \<Rightarrow> ExportEggWorker \<Rightarrow> string option \<times> ExportEggWorker" where
  "get_texture_wrap_v texture s =
     (if tex_extension texture = ''REPEAT'' \<and> tex_repeat_y texture = 1 then (Some ''repeat'', s)
      else (None, py_print (''undefined extension '' @ tex_extension texture @ '' '' @
                            ''for texture image '' @ tex_name texture @ '', '' @
                            ''texture.repeat_y='' @ fmt_f 6 (of_int (tex_repeat_y texture))) s))"

definition get_texture_type ::
  "string \<Rightarrow> string \<Rightarrow> ExportEggWorker \<Rightarrow> string \<times> ExportEggWorker" where
  "get_texture_type texture_coords mapping s =
     (if texture_coords = ''UV'' \<and> mapping = ''FLAT'' then (''2d'', s)
      else (''undefined'',
            py_print (''undefined texture type for texture_coords '' @ texture_coords @ '' '' @
                      ''and mapping='' @ mapping) s))"

definition write_texture ::
  "Env \<Rightarrow> Texture option \<Rightarrow> string \<Rightarrow> string \<Rightarrow> ExportEggWorker \<Rightarrow> py_error + ExportEggWorker" where
  "write_texture env texture texture_coords mapping s =
     (case texture of
        None \<Rightarrow> Inr s
      | Some tex \<Rightarrow>
          (case tex_image tex of
             None \<Rightarrow> Inr s
           | Some img \<Rightarrow>
               and_then (copy_texture_to_new_location env img s) (\<lambda>(newpath, s1).
                 let texname = good_texture_name (img_filepath img)
                 in and_then (get_image_format img) (\<lambda>image_format.
                      let (wrap_u, s2) = get_texture_wrap_u tex s1;
                          (wrap_v, s3) = get_texture_wrap_v tex s2;
                          (texture_type, s4) = get_texture_type texture_coords mapping s3
                      in fp_write
                           (''<Texture> '' @ texname @ '' {\<newline>'' @
                            ''  '' @ dq @ newpath @ dq @ ''\<newline>'' @
                            ''  <Scalar> format { '' @ image_format @ '' }\<newline>'' @
                            ''  <Scalar> wrapu { '' @ fmt_s wrap_u @ '' }\<newline>'' @
                            ''  <Scalar> wrapv { '' @ fmt_s wrap_v @ '' }\<newline>'' @
                            ''  <Scalar> type { '' @ texture_type @ '' }\<newline>'' @
                            ''}\<newline>\<newline>'') s4))))"

text \<open>
  The list comprehension \<open>imageTextures\<close> of \<^verbatim>\<open>_write_textures\<close>. A slot whose texture
  is None raises AttributeError at \<^verbatim>\<open>tslot.texture.type\<close>; an image that is None has
  the empty source (the default of \<^verbatim>\<open>getattr\<close>).
\<close>

fun imageTextures :: "TextureSlot option list \<Rightarrow> py_error + (Texture \<times> string \<times> string) list" where
  "imageTextures [] = Inr []"
| "imageTextures (tslot # rest) =
     (case tslot of
        None \<Rightarrow> imageTextures rest
      | Some ts \<Rightarrow>
          (case ts_texture ts of
             None \<Rightarrow> Inl AttributeError
           | Some tex \<Rightarrow>
               if tex_type tex = ''IMAGE'' \<and>
                  (case tex_image tex of None \<Rightarrow> '''' | Some img \<Rightarrow> img_source img) = ''FILE''
               then and_then (imageTextures rest)
                      (\<lambda>r. Inr ((tex, ts_texture_coords ts, ts_mapping ts) # r))
               else imageTextures rest))"

definition write_textures ::
  "Env \<Rightarrow> Object list \<Rightarrow> ExportEggWorker \<Rightarrow> py_error + ExportEggWorker" where
  "write_textures env rmeshes s =
     for_each (\<lambda>rmesh s.
       let materials = me_materials (obj_data rmesh)
       in for_each (\<lambda>mat s.
            case mat of
              None \<Rightarrow> Inr s
            | Some m \<Rightarrow>
                and_then (imageTextures (mat_texture_slots m)) (\<lambda>its.
                  for_each (\<lambda>(texture, texture_coords, mapping) s.
                    case tex_image texture of
                      None \<Rightarrow> Inl AttributeError
                    | Some img \<Rightarrow>
                        if \<not> dict_has (self_copied_files s) (img_filepath img)
                        then write_texture env (Some texture) texture_coords mapping s
                        else Inr s) its s)) materials s) rmeshes s"

text \<open>The text of one material record, as \<^verbatim>\<open>_write_materials\<close> builds it.\<close>

definition material_record :: "Material \<Rightarrow> string" where
  "material_record mat =
     (let material_name = good_material_name (mat_name mat)
      in ''<Material> '' @ material_name @ '' {\<newline>'' @
         ''  <Scalar> diffr { '' @ fmt_f 4 (col_r (mat_diffuse_color mat)) @ '' }\<newline>'' @
         ''  <Scalar> diffg { '' @ fmt_f 4 (col_g (mat_diffuse_color mat)) @ '' }\<newline>'' @
         ''  <Scalar> diffb { '' @ fmt_f 4 (col_b (mat_diffuse_color mat)) @ '' }\<newline>'' @
         ''  <Scalar> specr { '' @ fmt_f 4 (col_r (mat_specular_color mat)) @ '' }\<newline>'' @
         ''  <Scalar> specg { '' @ fmt_f 4 (col_g (mat_specular_color mat)) @ '' }\<newline>'' @
         ''  <Scalar> specb { '' @ fmt_f 4 (col_b (mat_specular_color mat)) @ '' }\<newline>'' @
         ''  <Scalar> speca { '' @ fmt_f 4 (mat_specular_alpha mat) @ '' }\<newline>'' @
         ''  <Scalar> ambr { '' @ fmt_f 4 (mat_ambient mat) @ '' }\<newline>'' @
         ''  <Scalar> ambg { '' @ fmt_f 4 (mat_ambient mat) @ '' }\<newline>'' @
         ''  <Scalar> ambb { '' @ fmt_f 4 (mat_ambient mat) @ '' }\<newline>'' @
         ''  <Scalar> emitr { '' @ fmt_f 4 (mat_emit mat) @ '' }\<newline>'' @
         ''  <Scalar> emitg { '' @ fmt_f 4 (mat_emit mat) @ '' }\<newline>'' @
         ''  <Scalar> emitb { '' @ fmt_f 4 (mat_emit mat) @ '' }\<newline>'' @
         ''  <Scalar> shininess { '' @ fmt_f 4 (mat_specular_hardness mat) @ '' }\<newline>'' @
         ''}\<newline>\<newline>'')"

text \<open>A mesh without active material raises AttributeError at \<^verbatim>\<open>mat.name\<close>.\<close>

definition write_materials :: "Object list \<Rightarrow> ExportEggWorker \<Rightarrow> py_error + ExportEggWorker" where
  "write_materials rmeshes s =
     for_each (\<lambda>rmesh s.
       case obj_active_material rmesh of
         None \<Rightarrow> Inl AttributeError
       | Some mat \<Rightarrow> fp_write (material_record mat) s) rmeshes s"

subsection \<open>Skin weight index\<close>

type_synonym weight_dict = "(nat, (nat, rat) dict) dict"

type_synonym bone_weight_dict = "(string, (string, (string, nat list) dict) dict) dict"

text \<open>
  The body of the inner loop of \<^verbatim>\<open>_mesh_to_weight_dict\<close>: one element \<open>g\<close> of
  \<^verbatim>\<open>v.groups\<close>.
\<close>

definition add_group_weight ::
  "nat \<Rightarrow> MeshVertex \<Rightarrow> VertexGroupElement \<Rightarrow> weight_dict \<Rightarrow> weight_dict" where
  "add_group_weight group_names_tot v g weight_dict =
     (let g_index = vge_group g
      in if g_index < group_names_tot
         then (case map_of weight_dict (mv_index v) of
                 Some v_groups \<Rightarrow>
                   AList.update (mv_index v) (AList.update g_index (vge_weight g) v_groups) weight_dict
               | None \<Rightarrow>
                   AList.update (mv_index v) (AList.update g_index (vge_weight g) []) weight_dict)
         else weight_dict)"

definition mesh_to_weight_dict :: "Object \<Rightarrow> string list \<times> weight_dict" where
  "mesh_to_weight_dict mesh_obj =
     (let group_names = obj_vertex_groups mesh_obj;
          group_names_tot = length group_names;
          mesh = obj_data mesh_obj
      in if group_names_tot = 0 then (group_names, [])
         else (group_names,
               fold (\<lambda>v weight_dict. fold (add_group_weight group_names_tot v) (mv_groups v) weight_dict)
                    (me_vertices mesh) []))"

text \<open>
  The body of the innermost loop of \<^verbatim>\<open>_meshes_to_weight_dict\<close>: one entry
  \<open>(g_index, weight)\<close> of the groups of vertex \<open>v_index\<close> of the mesh \<open>mesh_name\<close>. The
  weight table \<^verbatim>\<open>bone_weight_dict[bone_name][mesh_name]\<close> is looked up before the weight
  is tested.
\<close>

definition add_vertex_weight ::
  "nat \<Rightarrow> string \<Rightarrow> string list \<Rightarrow> nat \<Rightarrow> nat \<times> rat \<Rightarrow> bone_weight_dict \<Rightarrow>
   py_error + bone_weight_dict" where
  "add_vertex_weight precision mesh_name group_names v_index gw bone_weight_dict =
     (let g_index = fst gw; weight = snd gw
      in and_then (list_get group_names g_index) (\<lambda>bone_name.
           let weight_str = fmt_f precision weight
           in and_then (dict_get bone_weight_dict bone_name) (\<lambda>meshes_weights.
                and_then (dict_get meshes_weights mesh_name) (\<lambda>weights.
                  if weight \<noteq> 0
                  then (let vertex_indices =
                              (case map_of weights weight_str of
                                 None \<Rightarrow> [v_index]
                               | Some vs \<Rightarrow> vs @ [v_index])
                        in Inr (AList.update bone_name
                                  (AList.update mesh_name
                                     (AList.update weight_str vertex_indices weights)
                                     meshes_weights)
                                  bone_weight_dict))
                  else Inr bone_weight_dict))))"

text \<open>The body of the loop over the mesh names: the weights of one mesh.\<close>

definition add_mesh_weights ::
  "Env \<Rightarrow> nat \<Rightarrow> string \<Rightarrow> bone_weight_dict \<Rightarrow> py_error + bone_weight_dict" where
  "add_mesh_weights env precision mesh_name bone_weight_dict =
     (case bpy_objects env mesh_name of
        None \<Rightarrow> Inl KeyError
      | Some mesh \<Rightarrow>
          (let (group_names, weight_dict) = mesh_to_weight_dict mesh
           in for_each (\<lambda>(v_index, v_groups).
                for_each (add_vertex_weight precision mesh_name group_names v_index) v_groups)
                weight_dict bone_weight_dict))"

text \<open>The first two statements on \<open>bone_weight_dict\<close>: an empty table per bone and mesh.\<close>

definition empty_bone_weight_dict :: "Bone list \<Rightarrow> string list \<Rightarrow> py_error + bone_weight_dict" where
  "empty_bone_weight_dict bones mesh_names =
     (let bone_weight_dict = fold (\<lambda>bone d. AList.update (bone_name bone) [] d) bones []
      in for_each (\<lambda>bone.
           for_each (\<lambda>mesh_name d.
             and_then (dict_get d (bone_name bone)) (\<lambda>meshes_weights.
               Inr (AList.update (bone_name bone) (AList.update mesh_name [] meshes_weights) d)))
             mesh_names) bones bone_weight_dict)"

definition meshes_to_weight_dict :: "Env \<Rightarrow> ExportEggWorker \<Rightarrow> py_error + bone_weight_dict" where
  "meshes_to_weight_dict env s =
     (let mesh_names = map obj_name (filter (\<lambda>child. obj_type child = ''MESH'')
                                       (arm_children (self_human s)))
      in and_then (empty_bone_weight_dict (arm_bones (self_human s)) mesh_names)
           (for_each (add_mesh_weights env (self_vertex_weight_precision s)) mesh_names))"

subsection \<open>Armature\<close>

definition write_bone_translation :: "Bone \<Rightarrow> nat \<Rightarrow> ExportEggWorker \<Rightarrow> py_error + ExportEggWorker" where
  "write_bone_translation bone indent_level s =
     (let loc = head_local bone;
          padding = spaces indent_level;
          loc = (case parent bone of
                   Some p \<Rightarrow> vec_sub loc (ref_head_local p)
                 | None \<Rightarrow> loc)
      in fp_write (padding @ ''<Translate> { '' @
                   '' '' @ fmt_f 5 (vec_x loc) @ '' '' @ fmt_f 5 (vec_y loc) @ '' '' @
                   fmt_f 5 (vec_z loc) @ '' }\<newline>'') s)"

definition write_bone_vertex_ref ::
  "(string, (string, nat list) dict) dict \<Rightarrow> nat \<Rightarrow> ExportEggWorker \<Rightarrow> py_error + ExportEggWorker" where
  "write_bone_vertex_ref meshes_weights indent_level s =
     (let padding = spaces indent_level
      in for_each (\<lambda>mesh_name s.
           and_then (dict_get meshes_weights mesh_name) (\<lambda>weights_dict.
             let meshName = good_mesh_name mesh_name
             in for_each (\<lambda>weight s.
                  and_then (dict_get weights_dict weight) (\<lambda>vertex_indices.
                    and_then (fp_write (padding @ ''<VertexRef> {\<newline>'' @ padding @ ''  '') s) (\<lambda>s.
                      and_then (for_each (\<lambda>vertex_index. fp_write (str_int (int vertex_index) @ '' ''))
                                  (sort vertex_indices) s) (\<lambda>s.
                        fp_write (''\<newline>'' @ padding @ ''  <Scalar> membership { '' @ weight @ '' }\<newline>'' @
                                  padding @ ''  <Ref> { '' @ meshName @ ''_Mesh }\<newline>'' @
                                  padding @ ''}\<newline>'') s))))
                  (sort (map fst weights_dict)) s))
           (sort (map fst meshes_weights)) s)"

fun write_bone :: "Bone \<Rightarrow> bone_weight_dict \<Rightarrow> nat \<Rightarrow> ExportEggWorker \<Rightarrow> py_error + ExportEggWorker"
  and write_bone_children ::
    "Bone list \<Rightarrow> bone_weight_dict \<Rightarrow> nat \<Rightarrow> ExportEggWorker \<Rightarrow> py_error + ExportEggWorker" where
  "write_bone (Bone name hl par chs) bones_weights indent_level s =
     (let bone = Bone name hl par chs;
          bname = good_bone_name (bone_name bone);
          padding = spaces indent_level
      in and_then (fp_write (padding @ ''<Joint> '' @ bname @ '' {\<newline>'' @
                             padding @ ''  <Transform> {\<newline>'') s) (\<lambda>s.
         and_then (write_bone_translation bone (indent_level + 4) s) (\<lambda>s.
         and_then (fp_write (padding @ ''  }\<newline>'') s) (\<lambda>s.
         and_then (write_bone_children chs bones_weights (indent_level + 2) s) (\<lambda>s.
         and_then (dict_get bones_weights (bone_name bone)) (\<lambda>meshes_weights.
         and_then (write_bone_vertex_ref meshes_weights (indent_level + 2) s) (\<lambda>s.
         fp_write (padding @ ''}\<newline>'') s)))))))"
| "write_bone_children [] bones_weights indent_level s = Inr s"
| "write_bone_children (child_bone # rest) bones_weights indent_level s =
     and_then (write_bone child_bone bones_weights indent_level s)
       (\<lambda>s. write_bone_children rest bones_weights indent_level s)"

text \<open>\<^verbatim>\<open>roots[0]\<close> raises IndexError when no bone is without parent.\<close>

definition write_armature ::
  "Env \<Rightarrow> Object list \<Rightarrow> string \<Rightarrow> nat \<Rightarrow> ExportEggWorker \<Rightarrow> py_error + ExportEggWorker" where
  "write_armature env meshes name indent_level s =
     (let padding = spaces indent_level;
          skel_bones = arm_bones (self_human s)
      in and_then (meshes_to_weight_dict env s) (\<lambda>bone_weight_dict.
           let roots = filter (\<lambda>bone. parent bone = None) skel_bones
           in and_then (list_get roots 0) (\<lambda>root. write_bone root bone_weight_dict indent_level s)))"

subsection \<open>Geometry\<close>

text \<open>\<^verbatim>\<open>loop[uv_layer].uv\<close>.\<close>

definition loop_uv :: "BMLoop \<Rightarrow> BMLayerItem option \<Rightarrow> py_error + rat \<times> rat" where
  "loop_uv loop uv_layer = (case uv_layer of None \<Rightarrow> Inl TypeError | Some _ \<Rightarrow> Inr (bl_uv loop))"

definition uv_from_vert_first :: "BMLayerItem option \<Rightarrow> BMVert \<Rightarrow> py_error + (rat \<times> rat) option" where
  "uv_from_vert_first uv_layer v =
     (case bv_link_loops v of
        [] \<Rightarrow> Inr None
      | link_loop # _ \<Rightarrow> and_then (loop_uv link_loop uv_layer) (\<lambda>uv. Inr (Some uv)))"

text \<open>
  The list comprehension \<open>texture_names\<close> of \<^verbatim>\<open>_uv_from_vert_set\<close> and
  \<^verbatim>\<open>_write_polygons\<close>; a texture or an image that is None raises AttributeError.
\<close>

fun texture_names :: "TextureSlot option list \<Rightarrow> py_error + string list" where
  "texture_names [] = Inr []"
| "texture_names (texture_slot # rest) =
     (case texture_slot of
        None \<Rightarrow> texture_names rest
      | Some ts \<Rightarrow>
          (case ts_texture ts of
             None \<Rightarrow> Inl AttributeError
           | Some tex \<Rightarrow>
               if tex_type tex = ''IMAGE''
               then (case tex_image tex of
                       None \<Rightarrow> Inl AttributeError
                     | Some img \<Rightarrow>
                         and_then (texture_names rest)
                           (\<lambda>r. Inr (good_texture_name (img_filepath img) # r)))
               else texture_names rest))"

text \<open>
  After its loop \<^verbatim>\<open>_uv_from_vert_set\<close> reads the loop variable: for a vertex without
  face corner it is unbound (UnboundLocalError), otherwise it is the last corner.
\<close>

definition uv_from_vert_set ::
  "BMLayerItem option \<Rightarrow> BMVert \<Rightarrow> Mesh \<Rightarrow> py_error + (string \<times> rat \<times> rat) list" where
  "uv_from_vert_set uv_layer bvertex mesh =
     and_then (for_each (\<lambda>loop uv_set.
                 and_then (loop_uv loop uv_layer) (\<lambda>uv.
                   Inr (if uv \<notin> set uv_set then uv_set @ [uv] else uv_set)))
               (bv_link_loops bvertex) []) (\<lambda>uv_set.
       if bv_link_loops bvertex = [] then Inl UnboundLocalError
       else
         and_then (list_get (me_materials mesh)
                     (bl_face_material_index (last (bv_link_loops bvertex)))) (\<lambda>mat.
           case mat of
             None \<Rightarrow> Inl AttributeError
           | Some m \<Rightarrow>
               (let material_name = good_material_name (mat_name m)
                in and_then (texture_names (mat_texture_slots m)) (\<lambda>tnames.
                     Inr (if length tnames = 1 \<and> length uv_set = 1
                          then [(tnames ! 0, uv_set ! 0)]
                          else if length tnames = 1 then map (\<lambda>uv. (tnames ! 0, uv)) uv_set
                          else if length uv_set = 1 then map (\<lambda>tex. (tex, uv_set ! 0)) tnames
                          else [])))))"

text \<open>\<^verbatim>\<open>uv_first[0]\<close> raises TypeError when \<open>uv_first\<close> is None.\<close>

definition write_vertex ::
  "MeshVertex \<Rightarrow> nat \<Rightarrow> BMVert \<Rightarrow> BMLayerItem option \<Rightarrow> Mesh \<Rightarrow> string list \<Rightarrow> (nat, rat) dict \<Rightarrow>
   ExportEggWorker \<Rightarrow> py_error + ExportEggWorker" where
  "write_vertex vertex indent_level bvertex uv_layer mesh group_names weights s =
     (let padding = spaces indent_level
      in and_then (uv_from_vert_first uv_layer bvertex) (\<lambda>uv_first.
         and_then (uv_from_vert_set uv_layer bvertex mesh) (\<lambda>uv_set.
         and_then (fp_write (padding @ ''<Vertex> '' @ str_int (int (mv_index vertex)) @ '' {\<newline>'' @
                             padding @ ''  '' @ fmt_f 4 (vec_x (mv_co vertex)) @ '' '' @
                             fmt_f 4 (vec_y (mv_co vertex)) @ '' '' @
                             fmt_f 4 (vec_z (mv_co vertex)) @ ''\<newline>'') s) (\<lambda>s.
         case uv_first of
           None \<Rightarrow> Inl TypeError
         | Some uv \<Rightarrow>
             and_then (fp_write (padding @ ''  <UV> { '' @
                                 fmt_f 4 (fst uv) @ '' '' @ fmt_f 4 (snd uv) @ '' }\<newline>'') s) (\<lambda>s.
             and_then (fp_write (padding @ ''  <Normal> { '' @
                                 fmt_f 4 (vec_x (mv_normal vertex)) @ '' '' @
                                 fmt_f 4 (vec_y (mv_normal vertex)) @ '' '' @
                                 fmt_f 4 (vec_z (mv_normal vertex)) @ '' }\<newline>'') s) (\<lambda>s.
             and_then (for_each (\<lambda>(index, weight) s.
                         and_then (list_get group_names index) (\<lambda>group_name.
                           let bname = good_bone_name group_name
                           in if weight \<noteq> 0
                              then fp_write (padding @ ''  // '' @ bname @ '':'' @
                                             fmt_f 8 weight @ ''\<newline>'') s
                              else Inr s)) weights s) (\<lambda>s.
             fp_write (padding @ ''}\<newline>'') s)))))))"

definition write_vertexPool :: "Object \<Rightarrow> nat \<Rightarrow> ExportEggWorker \<Rightarrow> py_error + ExportEggWorker" where
  "write_vertexPool mesh_obj indent_level s =
     (let padding = spaces indent_level;
          mesh = obj_data mesh_obj;
          mesh_name = good_mesh_name (me_name mesh)
      in and_then (fp_write (padding @ ''<VertexPool> '' @ mesh_name @ ''_Mesh {\<newline>'') s) (\<lambda>s.
           let (group_names, weight_dict) = mesh_to_weight_dict mesh_obj;
               uv_layer = me_uv_active mesh
           in and_then (for_each (\<lambda>vertex s.
                          and_then (list_get (me_bm_verts mesh) (mv_index vertex)) (\<lambda>bvertex.
                          and_then (dict_get weight_dict (mv_index vertex)) (\<lambda>weights.
                            write_vertex vertex (indent_level + 2) bvertex uv_layer mesh
                              group_names weights s)))
                        (me_vertices mesh) s) (\<lambda>s.
                fp_write (padding @ ''}\<newline>'') s)))"

definition write_polygons :: "Mesh \<Rightarrow> nat \<Rightarrow> ExportEggWorker \<Rightarrow> py_error + ExportEggWorker" where
  "write_polygons mesh indent_level s =
     (let padding = spaces indent_level;
          mesh_name = good_mesh_name (me_name mesh)
      in for_each (\<lambda>poly s.
           and_then (list_get (me_materials mesh) (mp_material_index poly)) (\<lambda>mat.
             case mat of
               None \<Rightarrow> Inl AttributeError
             | Some m \<Rightarrow>
                 (let material_name = good_material_name (mat_name m)
                  in and_then (texture_names (mat_texture_slots m)) (\<lambda>tnames.
                     and_then (fp_write (padding @ ''<Polygon> '' @ str_int (int (mp_index poly)) @
                                         '' {\<newline>'') s) (\<lambda>s.
                     and_then (for_each (\<lambda>tex_name.
                                 fp_write (padding @ ''  <TRef> { '' @ tex_name @ '' }\<newline>''))
                               tnames s) (\<lambda>s.
                     and_then (fp_write (padding @ ''  <MRef> { '' @ material_name @ '' }\<newline>'' @
                                         padding @ ''  <VertexRef> { \<newline>'' @
                                         padding @ ''    '') s) (\<lambda>s.
                     and_then (for_each (\<lambda>loop_index s.
                                 and_then (list_get (me_loops mesh) loop_index) (\<lambda>loop.
                                   fp_write (str_int (int (ml_vertex_index loop)) @ '' '') s))
                               (mp_loop_indices poly) s) (\<lambda>s.
                     fp_write (''<Ref> { '' @ mesh_name @ ''_Mesh }\<newline>'' @
                               padding @ ''  }\<newline>'' @
                               padding @ ''}\<newline>'') s))))))))
           (me_polygons mesh) s)"

definition write_mesh_object :: "Object \<Rightarrow> nat \<Rightarrow> ExportEggWorker \<Rightarrow> py_error + ExportEggWorker" where
  "write_mesh_object mesh_obj indent_level s =
     (let padding = spaces indent_level;
          mesh_name = good_mesh_name (obj_name mesh_obj)
      in and_then (fp_write (padding @ ''  <Group> '' @ mesh_name @ ''_Mesh {\<newline>'') s) (\<lambda>s.
         and_then (write_vertexPool mesh_obj (indent_level + 4) s) (\<lambda>s.
         and_then (write_polygons (obj_data mesh_obj) (indent_level + 4) s) (\<lambda>s.
         fp_write (padding @ ''  }\<newline>'') s))))"

definition write_groups ::
  "Env \<Rightarrow> Object list \<Rightarrow> string \<Rightarrow> ExportEggWorker \<Rightarrow> py_error + ExportEggWorker" where
  "write_groups env meshes name s =
     and_then (fp_write (''<Group> '' @ name @ '' {\<newline>'') s) (\<lambda>s.
       let indent_level = 2;
           padding = spaces indent_level
       in and_then (if length (arm_bones (self_human s)) > 0
                    then fp_write (padding @ ''<Dart> { 1 }\<newline>'') s else Inr s) (\<lambda>s.
          and_then (fp_write (padding @ ''<Group> CharacterRoot {\<newline>'') s) (\<lambda>s.
          and_then (for_each (\<lambda>mesh. write_mesh_object mesh (indent_level + 2)) meshes s) (\<lambda>s.
          and_then (if length (arm_bones (self_human s)) > 0
                    then write_armature env meshes name (indent_level + 2) s else Inr s) (\<lambda>s.
          fp_write (padding @ ''}\<newline>'' @ ''}\<newline>'') s)))))"

subsection \<open>The document\<close>

text \<open>\<^verbatim>\<open>bpy.path.basename\<close>: the base name of a path, a leading \<^verbatim>\<open>//\<close> skipped.\<close>

definition bpy_path_basename :: "string \<Rightarrow> string" where
  "bpy_path_basename path = basename (if take 2 path = ''//'' then drop 2 path else path)"

text \<open>
  \<^verbatim>\<open>produce_egg\<close>. The two statements on Blender's mode and active object leave the
  scene data as it is. When the stream cannot be opened, \<open>self_egg_fp\<close> stays None and
  the first \<^verbatim>\<open>write\<close> raises. The \<^verbatim>\<open>finally\<close> clause closes the stream and prints
  on every path; an exception leaves the function after it.
\<close>

definition produce_egg :: "Env \<Rightarrow> ExportEggWorker \<Rightarrow> py_error + ExportEggWorker" where
  "produce_egg env s =
     (let meshes = filter (\<lambda>child. obj_type child = ''MESH'') (arm_children (self_human s));
          s = (if os_open_ok env (self_filepath s)
               then py_print (''Writing Egg file '' @ self_filepath s) (s\<lparr>self_egg_fp := Some []\<rparr>)
               else py_print (''Unable to open file for writing '' @ self_filepath s)
                      (s\<lparr>self_egg_fp := None\<rparr>));
          blendFilename = bpy_path_basename (blend_filepath env);
          eggFilename = self_filename s @ ''.egg''
      in and_then
           (and_then (fp_write (''<CoordinateSystem> { Z-Up }\<newline>\<newline>'' @
                                ''<Comment> {\<newline>'' @
                                dq @ ''io_export_egg.py '' @ blendFilename @ '' '' @
                                eggFilename @ dq @ ''\<newline>'' @
                                ''}\<newline>\<newline>'') s) (\<lambda>s.
            and_then (write_textures env meshes (py_print ''Exporting textures'' s)) (\<lambda>s.
            and_then (write_materials meshes (py_print ''Exporting materials'' s)) (\<lambda>s.
            let name = self_filename s
            in write_groups env meshes name (py_print ''Exporting geometry & armature'' s)))))
           (\<lambda>s. Inr (py_print ''Done.'' s)))"

section \<open>A small scene\<close>

text \<open>
  The scenes on which the theorems below are evaluated: an armature with the root bone
  \<^verbatim>\<open>root\<close> at the origin and its child \<^verbatim>\<open>arm.L\<close> at \<open>(0, 1, 0)\<close>, and triangle meshes
  whose name, vertex groups, vertex weights and material vary. The export goes to
  \<^verbatim>\<open>/out/my model.egg\<close>; every file operation succeeds.
\<close>

definition ex_image :: "string \<Rightarrow> Image" where
  "ex_image colorspace =
     \<lparr>img_filepath = ''/src/skin.png'', img_source = ''FILE'',
      img_colorspace_name = colorspace, img_use_alpha = True\<rparr>"

definition ex_texture :: "string \<Rightarrow> Texture" where
  "ex_texture colorspace =
     \<lparr>tex_name = ''skin'', tex_type = ''IMAGE'', tex_image = Some (ex_image colorspace),
      tex_extension = ''REPEAT'', tex_repeat_x = 1, tex_repeat_y = 1\<rparr>"

definition ex_material :: "string \<Rightarrow> string \<Rightarrow> Material" where
  "ex_material name colorspace =
     \<lparr>mat_name = name,
      mat_diffuse_color = \<lparr>col_r = 1, col_g = 1 / 2, col_b = 1 / 4\<rparr>,
      mat_specular_color = \<lparr>col_r = 1, col_g = 1, col_b = 1\<rparr>,
      mat_specular_alpha = 1, mat_ambient = 1, mat_emit = 0, mat_specular_hardness = 50,
      mat_texture_slots =
        [Some \<lparr>ts_texture = Some (ex_texture colorspace), ts_texture_coords = ''UV'',
               ts_mapping = ''FLAT''\<rparr>, None]\<rparr>"

definition ex_vertex :: "nat \<Rightarrow> rat \<Rightarrow> rat \<Rightarrow> (nat \<times> rat) list \<Rightarrow> MeshVertex" where
  "ex_vertex i a b groups =
     \<lparr>mv_index = i, mv_co = Vector a b 0, mv_normal = Vector 0 0 1,
      mv_groups = map (\<lambda>(g, w). \<lparr>vge_group = g, vge_weight = w\<rparr>) groups\<rparr>"

text \<open>A triangle: vertex \<open>i\<close> has the vertex group elements \<open>groups ! i\<close>.\<close>

definition ex_mesh :: "string \<Rightarrow> (nat \<times> rat) list list \<Rightarrow> Material \<Rightarrow> Mesh" where
  "ex_mesh name groups mat =
     \<lparr>me_name = name,
      me_vertices = [ex_vertex 0 0 0 (groups ! 0), ex_vertex 1 1 0 (groups ! 1),
                     ex_vertex 2 0 1 (groups ! 2)],
      me_polygons = [\<lparr>mp_index = 0, mp_material_index = 0, mp_loop_indices = [0, 1, 2]\<rparr>],
      me_loops = [\<lparr>ml_vertex_index = 0\<rparr>, \<lparr>ml_vertex_index = 1\<rparr>, \<lparr>ml_vertex_index = 2\<rparr>],
      me_materials = [Some mat],
      me_uv_active = Some UVLayer,
      me_bm_verts =
        [\<lparr>bv_link_loops = [\<lparr>bl_uv = (0, 0), bl_face_material_index = 0\<rparr>]\<rparr>,
         \<lparr>bv_link_loops = [\<lparr>bl_uv = (1, 0), bl_face_material_index = 0\<rparr>]\<rparr>,
         \<lparr>bv_link_loops = [\<lparr>bl_uv = (0, 1), bl_face_material_index = 0\<rparr>]\<rparr>]\<rparr>"

definition ex_object ::
  "string \<Rightarrow> string list \<Rightarrow> (nat \<times> rat) list list \<Rightarrow> Material \<Rightarrow> Object" where
  "ex_object name group_names groups mat =
     \<lparr>obj_name = name, obj_type = ''MESH'', obj_data = ex_mesh name groups mat,
      obj_vertex_groups = group_names, obj_active_material = Some mat\<rparr>"

definition ex_child_bone :: Bone where
  "ex_child_bone =
     Bone ''arm.L'' (Vector 0 1 0) (Some \<lparr>ref_name = ''root'', ref_head_local = Vector 0 0 0\<rparr>) []"

definition ex_root_bone :: Bone where
  "ex_root_bone = Bone ''root'' (Vector 0 0 0) None [ex_child_bone]"

definition ex_human :: "Object list \<Rightarrow> Armature" where
  "ex_human meshes = \<lparr>arm_children = meshes, arm_bones = [ex_root_bone, ex_child_bone]\<rparr>"

definition ex_env :: "Object list \<Rightarrow> Env" where
  "ex_env meshes =
     \<lparr>os_realpath = (\<lambda>p. p), os_exists = (\<lambda>p. False), os_mkdir_ok = (\<lambda>p. True),
      os_open_ok = (\<lambda>p. True), os_cwd = ''/home'', save_render_ok = (\<lambda>src dst. True),
      blend_filepath = ''/src/human.blend'',
      bpy_objects = map_of (map (\<lambda>obj. (obj_name obj, obj)) meshes)\<rparr>"

text \<open>The worker of an export of the scene with the given meshes.\<close>

definition ex_worker :: "Object list \<Rightarrow> bool \<Rightarrow> py_error + ExportEggWorker" where
  "ex_worker meshes use_rel_paths =
     init (ex_env meshes) (ex_human meshes) 4 ''/out/my model.egg'' use_rel_paths"

text \<open>The mesh of the body, with every vertex in the group of \<^verbatim>\<open>arm.L\<close> at full weight.\<close>

definition ex_body :: Object where
  "ex_body =
     ex_object ''human:Body'' [''root'', ''arm.L''] [[(1, 1)], [(1, 1)], [(1, 1)]]
       (ex_material ''skin'' ''sRGB'')"

text \<open>The same mesh with a texture image in a linear colour space.\<close>

definition ex_linear :: Object where
  "ex_linear =
     ex_object ''human:Body'' [''root'', ''arm.L''] [[(1, 1)], [(1, 1)], [(1, 1)]]
       (ex_material ''skin'' ''Linear'')"

text \<open>The same mesh with the third vertex in no vertex group.\<close>

definition ex_loose :: Object where
  "ex_loose =
     ex_object ''human:Body'' [''root'', ''arm.L''] [[(1, 1)], [(1, 1)], []]
       (ex_material ''skin'' ''sRGB'')"

text \<open>The same mesh with the third vertex on no face corner.\<close>

definition ex_isolated :: Object where
  "ex_isolated =
     ex_body\<lparr>obj_data := (obj_data ex_body)\<lparr>me_bm_verts :=
       [\<lparr>bv_link_loops = [\<lparr>bl_uv = (0, 0), bl_face_material_index = 0\<rparr>]\<rparr>,
        \<lparr>bv_link_loops = [\<lparr>bl_uv = (1, 0), bl_face_material_index = 0\<rparr>]\<rparr>,
        \<lparr>bv_link_loops = []\<rparr>]\<rparr>\<rparr>"

text \<open>A second texture image.\<close>

definition ex_image_eyes :: Image where
  "ex_image_eyes =
     \<lparr>img_filepath = ''/src/eyes.png'', img_source = ''FILE'',
      img_colorspace_name = ''sRGB'', img_use_alpha = False\<rparr>"

section \<open>Requests in sequence\<close>

text \<open>
  The relocation requests that one export makes, one image after the other, with the
  paths returned. This function is not part of the exporter: it states what
  ``a second request within one export'' means.
\<close>

fun relocate_each ::
  "Env \<Rightarrow> Image list \<Rightarrow> ExportEggWorker \<Rightarrow> py_error + (string list \<times> ExportEggWorker)" where
  "relocate_each env [] s = Inr ([], s)"
| "relocate_each env (img # imgs) s =
     and_then (copy_texture_to_new_location env img s) (\<lambda>(p, s1).
       and_then (relocate_each env imgs s1) (\<lambda>(ps, s2). Inr (p # ps, s2)))"

section \<open>Growth of the output stream\<close>

text \<open>
  The output stream of \<open>s'\<close> continues that of \<open>s\<close>: what was written before is still
  there, in place, and more may follow. (A stream that is None stays None.)
\<close>

definition appends_to :: "ExportEggWorker \<Rightarrow> ExportEggWorker \<Rightarrow> bool" where
  "appends_to s s' =
     (case self_egg_fp s of
        None \<Rightarrow> self_egg_fp s' = None
      | Some out \<Rightarrow> (case self_egg_fp s' of None \<Rightarrow> False | Some out' \<Rightarrow> prefix out out'))"



section \<open>Properties of the name sanitizers\<close>

subsection \<open>Replacing and splitting\<close>

lemma str_replace_absent: "old \<notin> set s \<Longrightarrow> str_replace old new s = s"
  by (induction s) (auto simp: str_replace_def)

lemma str_replace_removes: "old \<noteq> new \<Longrightarrow> old \<notin> set (str_replace old new s)"
  by (auto simp: str_replace_def)

lemma str_replace_keeps_absent:
  "c \<notin> set s \<Longrightarrow> c \<noteq> new \<Longrightarrow> c \<notin> set (str_replace old new s)"
  by (auto simp: str_replace_def)

lemma str_replace_empty: "str_replace old new s = [] \<longleftrightarrow> s = []"
  by (simp add: str_replace_def)

lemma str_replace_last:
  "s \<noteq> [] \<Longrightarrow> last (str_replace old new s) = (if last s = old then new else last s)"
  by (simp add: str_replace_def last_map)

lemma str_split_nonempty: "str_split sep s \<noteq> []"
  by (induction s) (auto split: list.splits)

lemma str_split_single: "str_split sep s = [w] \<Longrightarrow> sep \<notin> set s \<and> w = s"
proof (induction s arbitrary: w)
  case Nil
  then show ?case by simp
next
  case (Cons c cs)
  show ?case
  proof (cases "c = sep")
    case True
    with Cons.prems show ?thesis by (simp add: str_split_nonempty)
  next
    case False
    with Cons.prems obtain w' where w': "str_split sep cs = [w']" and w: "w = c # w'"
      by (auto simp: str_split_nonempty split: list.splits)
    from Cons.IH [OF w'] w False show ?thesis by simp
  qed
qed

text \<open>The last piece of a split is what follows the last separator.\<close>

lemma last_str_split:
  "last (str_split sep s) = rev (takeWhile (\<lambda>c. c \<noteq> sep) (rev s))"
proof (induction s)
  case Nil
  show ?case by simp
next
  case (Cons c cs)
  show ?case
  proof (cases "c = sep")
    case True
    then show ?thesis
      using Cons.IH by (simp add: str_split_nonempty takeWhile_append)
  next
    case False
    obtain w ws where sp: "str_split sep cs = w # ws"
      using str_split_nonempty [of sep cs] by (cases "str_split sep cs") auto
    show ?thesis
    proof (cases ws)
      case Nil
      with sp have "sep \<notin> set cs" and "w = cs"
        using str_split_single [of sep cs w] by auto
      with sp Nil False show ?thesis
        by (simp add: takeWhile_append)
    next
      case (Cons w' ws')
      have sep_in: "sep \<in> set cs"
      proof (rule ccontr)
        assume "sep \<notin> set cs"
        then have "str_split sep cs = [cs]"
          by (induction cs) auto
        with sp Cons show False by simp
      qed
      then have "takeWhile (\<lambda>c. c \<noteq> sep) (rev cs @ [c]) = takeWhile (\<lambda>c. c \<noteq> sep) (rev cs)"
        by (intro takeWhile_append1 [of sep]) auto
      with sp Cons False Cons.IH show ?thesis by simp
    qed
  qed
qed

lemma last_segment_no_sep: "sep \<notin> set (rev (takeWhile (\<lambda>c. c \<noteq> sep) (rev s)))"
  using set_takeWhileD [of sep "\<lambda>c. c \<noteq> sep" "rev s"] by auto

lemma last_segment_subset: "set (rev (takeWhile (\<lambda>c. c \<noteq> sep) (rev s))) \<subseteq> set s"
  using set_takeWhileD [of _ "\<lambda>c. c \<noteq> sep" "rev s"] by auto

lemma last_segment_absent: "sep \<notin> set s \<Longrightarrow> rev (takeWhile (\<lambda>c. c \<noteq> sep) (rev s)) = s"
proof -
  assume "sep \<notin> set s"
  then have "takeWhile (\<lambda>c. c \<noteq> sep) (rev s) = rev s"
    by (auto simp: takeWhile_eq_all_conv)
  then show ?thesis by (simp only: rev_rev_ident)
qed

lemma last_segment_empty:
  "rev (takeWhile (\<lambda>c. c \<noteq> sep) (rev s)) = [] \<longleftrightarrow> s = [] \<or> last s = sep"
  by (cases s rule: rev_cases) (auto simp: takeWhile_eq_Nil_iff)

subsection \<open>Base names and extensions\<close>

lemma basename_no_slash: "CHR ''/'' \<notin> set (basename p)"
  unfolding basename_def by (rule last_segment_no_sep)

lemma basename_subset: "set (basename p) \<subseteq> set p"
  unfolding basename_def by (rule last_segment_subset)

lemma basename_absent: "CHR ''/'' \<notin> set p \<Longrightarrow> basename p = p"
  unfolding basename_def by (rule last_segment_absent)

lemma basename_empty: "basename p = [] \<longleftrightarrow> p = [] \<or> last p = CHR ''/''"
  unfolding basename_def by (rule last_segment_empty)

lemma splitext_name_subset:
  assumes "CHR ''/'' \<notin> set p"
  shows "set (fst (splitext p)) \<subseteq> set p"
proof -
  have "set (rev (drop 1 (dropWhile (\<lambda>c. c \<noteq> CHR ''.'') (rev p)))) \<subseteq> set p"
    using set_dropWhileD [of _ "\<lambda>c. c \<noteq> CHR ''.''" "rev p"]
    by (auto dest: in_set_dropD)
  with assms show ?thesis
    by (auto simp: splitext_def basename_absent Let_def)
qed

lemma splitext_no_dot: "CHR ''.'' \<notin> set p \<Longrightarrow> splitext p = (p, [])"
  using basename_subset [of p] by (auto simp: splitext_def Let_def)

lemma splitext_name_empty:
  assumes "CHR ''/'' \<notin> set p"
  shows "fst (splitext p) = [] \<longleftrightarrow> p = []"
  using assms by (auto simp: splitext_def basename_absent Let_def)

text \<open>A path is its own root exactly when \<^verbatim>\<open>splitext\<close> finds no extension.\<close>

lemma splitext_root_fixed: "fst (splitext p) = p \<longleftrightarrow> snd (splitext p) = []"
proof -
  let ?fname = "basename p"
  let ?rest = "dropWhile (\<lambda>c. c \<noteq> CHR ''.'') (rev ?fname)"
  let ?root = "rev (drop 1 ?rest)"
  show ?thesis
  proof (cases "CHR ''.'' \<in> set ?fname \<and> (\<exists>c \<in> set ?root. c \<noteq> CHR ''.'')")
    case False
    then have "splitext p = (p, [])"
      unfolding splitext_def Let_def by (rule if_not_P)
    then show ?thesis by simp
  next
    case True
    then have "CHR ''.'' \<in> set (rev ?fname)"
      by simp
    then have "?rest \<noteq> []"
      unfolding dropWhile_eq_Nil_conv by blast
    then have "length ?root < length ?rest"
      by (cases ?rest) simp_all
    also have "length ?rest \<le> length ?fname"
      using length_dropWhile_le [of "\<lambda>c. c \<noteq> CHR ''.''" "rev ?fname"] by simp
    finally have short: "length ?root < length ?fname" .
    have "length ?fname \<le> length p"
      using length_takeWhile_le [of "\<lambda>c. c \<noteq> CHR ''/''" "rev p"] by (simp add: basename_def)
    with short have "length (take (length p - length ?fname) p @ ?root) < length p"
      by simp
    then have "length (take (length p - length ?fname) p @ ?root) \<noteq> length p"
      by (rule less_imp_neq)
    then have root: "take (length p - length ?fname) p @ ?root \<noteq> p"
      by (rule contrapos_nn) (erule arg_cong)
    have ext: "drop (length ?root) ?fname \<noteq> []"
      using short by simp
    have "splitext p = (take (length p - length ?fname) p @ ?root, drop (length ?root) ?fname)"
      using True by (simp add: splitext_def Let_def)
    then have "fst (splitext p) \<noteq> p" and "snd (splitext p) \<noteq> []"
      using root ext by (simp_all only: fst_conv snd_conv not_False_eq_True)
    then show ?thesis by simp
  qed
qed

subsection \<open>What each sanitizer removes\<close>

lemma good_bone_name_chars:
  "CHR ''.'' \<notin> set (good_bone_name s)" "CHR ''-'' \<notin> set (good_bone_name s)"
  by (simp_all add: good_bone_name_def str_replace_removes str_replace_keeps_absent)

lemma good_mesh_name_chars: "CHR '':'' \<notin> set (good_mesh_name s)"
  unfolding good_mesh_name_def last_str_split by (rule last_segment_no_sep)

lemma good_material_name_chars:
  "CHR '' '' \<notin> set (good_material_name s)" "CHR '':'' \<notin> set (good_material_name s)"
proof -
  have "CHR '' '' \<notin> set (str_replace (CHR '' '') (CHR ''_'') s)"
    by (simp add: str_replace_removes)
  then show "CHR '' '' \<notin> set (good_material_name s)"
    using last_segment_subset [of "CHR '':''" "str_replace (CHR '' '') (CHR ''_'') s"]
    by (auto simp: good_material_name_def last_str_split)
  show "CHR '':'' \<notin> set (good_material_name s)"
    unfolding good_material_name_def last_str_split by (rule last_segment_no_sep)
qed

lemma good_texture_name_chars:
  "CHR ''.'' \<notin> set (good_texture_name s)" "CHR ''/'' \<notin> set (good_texture_name s)"
  by (simp_all add: good_texture_name_def str_replace_removes str_replace_keeps_absent
      basename_no_slash)

lemma good_file_name_chars:
  "CHR '' '' \<notin> set (good_file_name s)" "CHR ''-'' \<notin> set (good_file_name s)"
  "CHR ''/'' \<notin> set (good_file_name s)"
proof -
  show "CHR '' '' \<notin> set (good_file_name s)" "CHR ''-'' \<notin> set (good_file_name s)"
    by (simp_all add: good_file_name_def Let_def str_replace_removes str_replace_keeps_absent)
  have "CHR ''/'' \<notin> set (fst (splitext (basename s)))"
    using splitext_name_subset [OF basename_no_slash, of s] basename_no_slash [of s] by auto
  then show "CHR ''/'' \<notin> set (good_file_name s)"
    by (simp add: good_file_name_def Let_def str_replace_keeps_absent)
qed

subsection \<open>Applying a sanitizer twice\<close>

lemma good_bone_name_idem: "good_bone_name (good_bone_name s) = good_bone_name s"
proof -
  have "str_replace (CHR ''.'') (CHR ''_'') (good_bone_name s) = good_bone_name s"
    by (rule str_replace_absent) (rule good_bone_name_chars)
  moreover have "str_replace (CHR ''-'') (CHR ''_'') (good_bone_name s) = good_bone_name s"
    by (rule str_replace_absent) (rule good_bone_name_chars)
  ultimately show ?thesis
    by (simp add: good_bone_name_def)
qed

lemma good_mesh_name_idem: "good_mesh_name (good_mesh_name s) = good_mesh_name s"
  using last_segment_absent [OF good_mesh_name_chars, of s]
  by (simp add: good_mesh_name_def last_str_split)

lemma good_material_name_idem: "good_material_name (good_material_name s) = good_material_name s"
proof -
  have "str_replace (CHR '' '') (CHR ''_'') (good_material_name s) = good_material_name s"
    by (rule str_replace_absent) (rule good_material_name_chars)
  moreover have "last (str_split (CHR '':'') (good_material_name s)) = good_material_name s"
    using last_segment_absent [OF good_material_name_chars(2), of s]
    by (simp add: last_str_split)
  ultimately show ?thesis
    by (simp add: good_material_name_def)
qed

lemma good_texture_name_idem: "good_texture_name (good_texture_name s) = good_texture_name s"
proof -
  have "basename (good_texture_name s) = good_texture_name s"
    by (rule basename_absent) (rule good_texture_name_chars)
  moreover have "str_replace (CHR ''.'') (CHR ''_'') (good_texture_name s) = good_texture_name s"
    by (rule str_replace_absent) (rule good_texture_name_chars)
  ultimately show ?thesis
    by (simp add: good_texture_name_def)
qed

lemma good_file_name_idem:
  assumes "CHR ''.'' \<notin> set (good_file_name s)"
  shows "good_file_name (good_file_name s) = good_file_name s"
proof -
  have "basename (good_file_name s) = good_file_name s"
    by (rule basename_absent) (rule good_file_name_chars)
  moreover have "fst (splitext (good_file_name s)) = good_file_name s"
    using splitext_no_dot [OF assms] by simp
  moreover have "str_replace (CHR '' '') (CHR ''_'') (good_file_name s) = good_file_name s"
    by (rule str_replace_absent) (rule good_file_name_chars)
  moreover have "str_replace (CHR ''-'') (CHR ''_'') (good_file_name s) = good_file_name s"
    by (rule str_replace_absent) (rule good_file_name_chars)
  ultimately show ?thesis
    by (simp add: good_file_name_def [of "good_file_name s"] Let_def)
qed

text \<open>
  The file name sanitizer, applied to its own output, strips the extension of that
  output and does nothing else.
\<close>

lemma good_file_name_twice:
  "good_file_name (good_file_name s) = fst (splitext (good_file_name s))"
proof -
  let ?g = "good_file_name s"
  let ?root = "fst (splitext ?g)"
  have base: "basename ?g = ?g"
    by (rule basename_absent) (rule good_file_name_chars)
  have sub: "set ?root \<subseteq> set ?g"
    by (rule splitext_name_subset) (rule good_file_name_chars)
  have "CHR '' '' \<notin> set ?root"
    using sub good_file_name_chars(1) [of s] by blast
  then have space: "str_replace (CHR '' '') (CHR ''_'') ?root = ?root"
    by (rule str_replace_absent)
  have "CHR ''-'' \<notin> set ?root"
    using sub good_file_name_chars(2) [of s] by blast
  then have hyphen: "str_replace (CHR ''-'') (CHR ''_'') ?root = ?root"
    by (rule str_replace_absent)
  show ?thesis
    by (simp add: good_file_name_def [of ?g] Let_def base space hyphen)
qed

subsection \<open>Empty results\<close>

lemma good_bone_name_empty: "good_bone_name s = [] \<longleftrightarrow> s = []"
  by (simp add: good_bone_name_def str_replace_empty)

lemma good_mesh_name_empty: "good_mesh_name s = [] \<longleftrightarrow> s = [] \<or> last s = CHR '':''"
  unfolding good_mesh_name_def last_str_split by (rule last_segment_empty)

lemma good_material_name_empty: "good_material_name s = [] \<longleftrightarrow> s = [] \<or> last s = CHR '':''"
proof -
  let ?r = "str_replace (CHR '' '') (CHR ''_'') s"
  have "good_material_name s = [] \<longleftrightarrow> ?r = [] \<or> last ?r = CHR '':''"
    unfolding good_material_name_def last_str_split by (rule last_segment_empty)
  also have "\<dots> \<longleftrightarrow> s = [] \<or> last s = CHR '':''"
    by (cases "s = []") (simp_all add: str_replace_empty str_replace_last)
  finally show ?thesis .
qed

lemma good_texture_name_empty: "good_texture_name s = [] \<longleftrightarrow> s = [] \<or> last s = CHR ''/''"
  by (simp add: good_texture_name_def str_replace_empty basename_empty)

lemma good_file_name_empty: "good_file_name s = [] \<longleftrightarrow> s = [] \<or> last s = CHR ''/''"
  using splitext_name_empty [OF basename_no_slash, of s]
  by (simp add: good_file_name_def Let_def str_replace_empty basename_empty)

section \<open>Claims on the name sanitizers\<close>

text \<open>
  Claim C6, as the code has it. The sanitizers for bone, mesh, texture and material names
  are idempotent. The sanitizer for file names, applied to its own output, strips the
  extension of that output (as \<^verbatim>\<open>os.path.splitext\<close> finds it) and changes nothing
  else: it is idempotent exactly on the paths whose sanitized name has no extension
  left, among them every path whose sanitized name holds no dot. Each output is free of
  the characters its own rule removes: a bone name holds no dot and no hyphen, a mesh
  name no colon, a material name no space and no colon, a texture name no dot and no
  slash, a file name no space, no hyphen and no slash.
\<close>

theorem sanitizers_idempotent_and_clean:
  "good_bone_name (good_bone_name s) = good_bone_name s \<and>
   good_mesh_name (good_mesh_name s) = good_mesh_name s \<and>
   good_texture_name (good_texture_name s) = good_texture_name s \<and>
   good_material_name (good_material_name s) = good_material_name s \<and>
   good_file_name (good_file_name s) = fst (splitext (good_file_name s)) \<and>
   (good_file_name (good_file_name s) = good_file_name s \<longleftrightarrow>
      snd (splitext (good_file_name s)) = []) \<and>
   (CHR ''.'' \<notin> set (good_file_name s) \<longrightarrow> good_file_name (good_file_name s) = good_file_name s) \<and>
   CHR ''.'' \<notin> set (good_bone_name s) \<and> CHR ''-'' \<notin> set (good_bone_name s) \<and>
   CHR '':'' \<notin> set (good_mesh_name s) \<and>
   CHR '' '' \<notin> set (good_material_name s) \<and> CHR '':'' \<notin> set (good_material_name s) \<and>
   CHR ''.'' \<notin> set (good_texture_name s) \<and> CHR ''/'' \<notin> set (good_texture_name s) \<and>
   CHR '' '' \<notin> set (good_file_name s) \<and> CHR ''-'' \<notin> set (good_file_name s) \<and>
   CHR ''/'' \<notin> set (good_file_name s)"
proof -
  have twice: "good_file_name (good_file_name s) = fst (splitext (good_file_name s))"
    by (rule good_file_name_twice)
  have exact: "good_file_name (good_file_name s) = good_file_name s \<longleftrightarrow>
      snd (splitext (good_file_name s)) = []"
    unfolding twice by (rule splitext_root_fixed)
  have no_dot: "CHR ''.'' \<notin> set (good_file_name s) \<longrightarrow>
      good_file_name (good_file_name s) = good_file_name s"
    by (simp add: good_file_name_idem)
  show ?thesis
    by (intro conjI good_bone_name_idem good_mesh_name_idem good_texture_name_idem
        good_material_name_idem twice exact no_dot good_bone_name_chars good_mesh_name_chars
        good_material_name_chars good_texture_name_chars good_file_name_chars)
qed

text \<open>
  The path \<^verbatim>\<open>/out/my model-1.egg\<close> is sanitized to \<^verbatim>\<open>my_model_1\<close>, which holds no
  dot, and sanitizing that name again returns it. The path \<^verbatim>\<open>/x.d/.my-file\<close> is
  sanitized to \<^verbatim>\<open>.my_file\<close>, which holds a dot but has no extension, and sanitizing
  that name again returns it as well.
\<close>

theorem sanitizers_idempotent_and_clean_witness:
  "CHR ''.'' \<notin> set (good_file_name ''/out/my model-1.egg'') \<and>
   good_file_name (good_file_name ''/out/my model-1.egg'') = good_file_name ''/out/my model-1.egg'' \<and>
   good_file_name ''/out/my model-1.egg'' = ''my_model_1'' \<and>
   good_file_name ''/x.d/.my-file'' = ''.my_file'' \<and>
   good_file_name (good_file_name ''/x.d/.my-file'') = ''.my_file''"
proof -
  let ?a = "''/out/my model-1.egg''" and ?b = "''/x.d/.my-file''"
  have name: "good_file_name ?a = ''my_model_1''"
    by code_simp
  have hidden: "good_file_name ?b = ''.my_file''"
    by code_simp
  have no_ext: "snd (splitext ''.my_file'') = []"
    by code_simp
  have no_dot: "CHR ''.'' \<notin> set (good_file_name ?a)"
    unfolding name by simp
  have "CHR ''.'' \<notin> set (good_file_name ?a) \<longrightarrow>
      good_file_name (good_file_name ?a) = good_file_name ?a"
    using sanitizers_idempotent_and_clean [of ?a] by (elim conjE)
  with no_dot have first: "good_file_name (good_file_name ?a) = good_file_name ?a"
    by (rule rev_mp)
  have "good_file_name (good_file_name ?b) = good_file_name ?b \<longleftrightarrow>
      snd (splitext (good_file_name ?b)) = []"
    using sanitizers_idempotent_and_clean [of ?b] by (elim conjE)
  then have "good_file_name (good_file_name ?b) = good_file_name ?b"
    unfolding hidden using no_ext by (rule iffD2)
  then have second: "good_file_name (good_file_name ?b) = ''.my_file''"
    unfolding hidden .
  from no_dot first name hidden second show ?thesis
    by (intro conjI)
qed

text \<open>
  The claim as stated fails: \<^verbatim>\<open>good_file_name\<close> maps \<^verbatim>\<open>a.b.c\<close> to \<^verbatim>\<open>a.b\<close> (which
  has the extension \<^verbatim>\<open>.b\<close>) and \<^verbatim>\<open>a.b\<close> to \<^verbatim>\<open>a\<close>; a bone name keeps its spaces and
  colons, a mesh name its dots, hyphens and spaces.
\<close>

theorem sanitizers_counterexample:
  "good_file_name ''a.b.c'' = ''a.b'' \<and>
   good_file_name (good_file_name ''a.b.c'') = ''a'' \<and>
   good_bone_name ''a b:c'' = ''a b:c'' \<and>
   good_mesh_name ''x:a-b c.d'' = ''a-b c.d''"
  by code_simp

text \<open>
  Claim C7, as the code has it. The bone sanitizer returns an empty name for the empty
  name only. The mesh and the material sanitizer return an empty name exactly for an
  input that is empty or ends with a colon, the texture and the file sanitizer exactly
  for an input that is empty or ends with a slash.
\<close>

theorem sanitizers_empty_output:
  "(good_bone_name s = [] \<longleftrightarrow> s = []) \<and>
   (good_mesh_name s = [] \<longleftrightarrow> s = [] \<or> last s = CHR '':'') \<and>
   (good_material_name s = [] \<longleftrightarrow> s = [] \<or> last s = CHR '':'') \<and>
   (good_texture_name s = [] \<longleftrightarrow> s = [] \<or> last s = CHR ''/'') \<and>
   (good_file_name s = [] \<longleftrightarrow> s = [] \<or> last s = CHR ''/'')"
  by (simp add: good_bone_name_empty good_mesh_name_empty good_material_name_empty
      good_texture_name_empty good_file_name_empty)

text \<open>
  The claim as stated fails: the non-empty names \<^verbatim>\<open>a:\<close> and \<^verbatim>\<open>a/\<close> are sanitized
  to the empty name.
\<close>

theorem sanitizers_empty_counterexample:
  "good_mesh_name ''a:'' = [] \<and> good_material_name ''a:'' = [] \<and>
   good_texture_name ''a/'' = [] \<and> good_file_name ''a/'' = []"
  by code_simp

section \<open>Texture relocation\<close>

lemma and_then_Inr: "and_then m f = Inr r \<longleftrightarrow> (\<exists>v. m = Inr v \<and> f v = Inr r)"
  by (cases m) auto

lemma and_then_Inl: "and_then m f = Inl e \<longleftrightarrow> m = Inl e \<or> (\<exists>v. m = Inr v \<and> f v = Inl e)"
  by (cases m) auto

lemma dict_has_update: "dict_has (AList.update k v d) k' \<longleftrightarrow> k' = k \<or> dict_has d k'"
  by (auto simp: dict_has_def update_keys)

text \<open>A constructed worker has its texture folder, an empty registry and no copy made.\<close>

lemma init_state:
  assumes "init env human weight_precision filepath use_rel_paths = Inr s"
  shows "self_tex_folder s \<noteq> None" "self_copied_files s = []" "save_render_calls s = []"
    "self_use_rel_paths s" "self_egg_fp s = None" "self_human s = human"
    "self_vertex_weight_precision s = weight_precision"
    "self_filename s = good_file_name filepath" "self_filepath s = filepath"
  using assms
  by (auto simp: init_def setup_tex_folder_def Let_def and_then_Inr)

text \<open>
  One request, for a worker whose folder is \<open>folder\<close>: the path returned depends on the
  source path, the folder and the path mode only, and a copy is made exactly when the
  source path is not registered yet.
\<close>

lemma copy_texture_step:
  assumes "self_tex_folder s = Some folder"
  shows "\<exists>s'. copy_texture_to_new_location env img s =
           Inr (if self_use_rel_paths s
                then normpath (relpath (os_cwd env)
                       (abspath (os_cwd env) (join folder (basename (img_filepath img))))
                       (self_outFolder s))
                else abspath (os_cwd env) (join folder (basename (img_filepath img))), s') \<and>
         self_tex_folder s' = Some folder \<and>
         self_use_rel_paths s' = self_use_rel_paths s \<and>
         self_outFolder s' = self_outFolder s \<and>
         map fst (self_copied_files s') =
           (if dict_has (self_copied_files s) (img_filepath img) then map fst (self_copied_files s)
            else map fst (self_copied_files s) @ [img_filepath img]) \<and>
         save_render_calls s' =
           (if dict_has (self_copied_files s) (img_filepath img) then save_render_calls s
            else save_render_calls s @
                 [(img_filepath img, abspath (os_cwd env) (join folder (basename (img_filepath img))))]) \<and>
         (dict_has (self_copied_files s) (img_filepath img) \<longrightarrow> s' = s)"
  using assms
  by (auto simp: copy_texture_to_new_location_def Let_def py_print_def dict_has_def
      update_keys)


text \<open>
  A sequence of requests: every request returns, and the sources of the copies made stay
  distinct. The hypotheses hold for a new worker and are kept by every request.
\<close>

lemma relocate_each_inv:
  assumes "self_tex_folder s = Some folder"
    and "self_use_rel_paths s = rel"
    and "self_outFolder s = outf"
    and "set (map fst (save_render_calls s)) = set (map fst (self_copied_files s))"
    and "distinct (map fst (save_render_calls s))"
  shows "\<exists>paths s'. relocate_each env imgs s = Inr (paths, s') \<and>
           paths = map (\<lambda>img.
             if rel
             then normpath (relpath (os_cwd env)
                    (abspath (os_cwd env) (join folder (basename (img_filepath img)))) outf)
             else abspath (os_cwd env) (join folder (basename (img_filepath img)))) imgs \<and>
           distinct (map fst (save_render_calls s')) \<and>
           set (map fst (save_render_calls s')) =
             set (map fst (save_render_calls s)) \<union> set (map img_filepath imgs)"
  using assms
proof (induction imgs arbitrary: s)
  case Nil
  then show ?case by simp
next
  case (Cons img imgs)
  from copy_texture_step [OF Cons.prems(1), of env img]
  obtain s1 where
    step: "copy_texture_to_new_location env img s =
             Inr (if self_use_rel_paths s
                  then normpath (relpath (os_cwd env)
                         (abspath (os_cwd env) (join folder (basename (img_filepath img))))
                         (self_outFolder s))
                  else abspath (os_cwd env) (join folder (basename (img_filepath img))), s1)"
    and folder1: "self_tex_folder s1 = Some folder"
    and rel1: "self_use_rel_paths s1 = self_use_rel_paths s"
    and outf1: "self_outFolder s1 = self_outFolder s"
    and keys1: "map fst (self_copied_files s1) =
           (if dict_has (self_copied_files s) (img_filepath img) then map fst (self_copied_files s)
            else map fst (self_copied_files s) @ [img_filepath img])"
    and calls1: "save_render_calls s1 =
           (if dict_has (self_copied_files s) (img_filepath img) then save_render_calls s
            else save_render_calls s @
                 [(img_filepath img, abspath (os_cwd env) (join folder (basename (img_filepath img))))])"
    by blast
  have inv1: "set (map fst (save_render_calls s1)) = set (map fst (self_copied_files s1))"
    using Cons.prems(4) keys1 calls1 by (simp split: if_splits)
  have dist1: "distinct (map fst (save_render_calls s1))"
    using Cons.prems(4,5) calls1 by (auto simp: dict_has_def split: if_splits)
  have sources1: "set (map fst (save_render_calls s1)) =
      set (map fst (save_render_calls s)) \<union> {img_filepath img}"
    using Cons.prems(4) calls1 by (auto simp: dict_has_def split: if_splits)
  from Cons.IH [OF folder1 _ _ inv1 dist1] rel1 outf1 Cons.prems(2,3)
  obtain paths s' where
    rest: "relocate_each env imgs s1 = Inr (paths, s')"
    and paths: "paths = map (\<lambda>img.
             if rel
             then normpath (relpath (os_cwd env)
                    (abspath (os_cwd env) (join folder (basename (img_filepath img)))) outf)
             else abspath (os_cwd env) (join folder (basename (img_filepath img)))) imgs"
    and dist': "distinct (map fst (save_render_calls s'))"
    and sources': "set (map fst (save_render_calls s')) =
             set (map fst (save_render_calls s1)) \<union> set (map img_filepath imgs)"
    by auto
  show ?case
    using step rest paths dist' sources' sources1 Cons.prems(2,3)
    by auto
qed

section \<open>Claims on the texture relocation\<close>

text \<open>
  Claim C4. In one export, that is for the worker that \<^verbatim>\<open>__init__\<close> returns and any
  sequence of relocation requests made to it, every request returns; two requests for
  the same source path return the identical destination path; and the copies made
  (the calls of \<^verbatim>\<open>image.save_render\<close>) are exactly one per source path requested, however
  often the path is requested.
\<close>

theorem texture_relocation_dedup:
  assumes "init env human weight_precision filepath use_rel_paths = Inr s0"
  shows "\<exists>paths s. relocate_each env imgs s0 = Inr (paths, s) \<and>
           length paths = length imgs \<and>
           (\<forall>i < length imgs. \<forall>j < length imgs.
              img_filepath (imgs ! i) = img_filepath (imgs ! j) \<longrightarrow> paths ! i = paths ! j) \<and>
           distinct (map fst (save_render_calls s)) \<and>
           set (map fst (save_render_calls s)) = set (map img_filepath imgs)"
proof -
  from init_state(1) [OF assms] obtain folder where folder: "self_tex_folder s0 = Some folder"
    by auto
  have calls: "save_render_calls s0 = []" and files: "self_copied_files s0 = []"
    using init_state [OF assms] by simp_all
  from relocate_each_inv [OF folder refl refl, where env = env and imgs = imgs] calls files
  obtain paths s where
    run: "relocate_each env imgs s0 = Inr (paths, s)"
    and paths: "paths = map (\<lambda>img.
             if self_use_rel_paths s0
             then normpath (relpath (os_cwd env)
                    (abspath (os_cwd env) (join folder (basename (img_filepath img))))
                    (self_outFolder s0))
             else abspath (os_cwd env) (join folder (basename (img_filepath img)))) imgs"
    and dist: "distinct (map fst (save_render_calls s))"
    and sources: "set (map fst (save_render_calls s)) = set (map img_filepath imgs)"
    by auto
  have "length paths = length imgs"
    using paths by simp
  moreover have "\<forall>i < length imgs. \<forall>j < length imgs.
      img_filepath (imgs ! i) = img_filepath (imgs ! j) \<longrightarrow> paths ! i = paths ! j"
    using paths by simp
  ultimately show ?thesis
    using run dist sources by blast
qed

text \<open>
  The skin image, the eyes image and the skin image again: the first and the third
  request return the same path, and two copies are made.
\<close>

theorem texture_relocation_dedup_witness:
  "ex_worker [] True =
     Inr \<lparr>self_use_rel_paths = True, self_human = ex_human [],
          self_vertex_weight_precision = 4, self_copied_files = [], self_egg_fp = None,
          self_tex_folder = Some ''/out/textures'', self_outFolder = ''/out'',
          self_separate_tex_folder = ''textures'', self_filepath = ''/out/my model.egg'',
          self_filename = ''my_model'', stdout = [], save_render_calls = []\<rparr> \<and>
   (\<exists>paths s.
      relocate_each (ex_env []) [ex_image ''sRGB'', ex_image_eyes, ex_image ''sRGB'']
        \<lparr>self_use_rel_paths = True, self_human = ex_human [],
         self_vertex_weight_precision = 4, self_copied_files = [], self_egg_fp = None,
         self_tex_folder = Some ''/out/textures'', self_outFolder = ''/out'',
         self_separate_tex_folder = ''textures'', self_filepath = ''/out/my model.egg'',
         self_filename = ''my_model'', stdout = [], save_render_calls = []\<rparr> = Inr (paths, s) \<and>
      length paths = 3 \<and> paths ! 0 = paths ! 2 \<and>
      distinct (map fst (save_render_calls s)) \<and>
      set (map fst (save_render_calls s)) = {''/src/skin.png'', ''/src/eyes.png''})"
proof -
  let ?s0 = "\<lparr>self_use_rel_paths = True, self_human = ex_human [],
          self_vertex_weight_precision = 4, self_copied_files = [], self_egg_fp = None,
          self_tex_folder = Some ''/out/textures'', self_outFolder = ''/out'',
          self_separate_tex_folder = ''textures'', self_filepath = ''/out/my model.egg'',
          self_filename = ''my_model'', stdout = [], save_render_calls = []\<rparr>"
  let ?imgs = "[ex_image ''sRGB'', ex_image_eyes, ex_image ''sRGB'']"
  have w: "ex_worker [] True = Inr ?s0"
    by code_simp
  then have i: "init (ex_env []) (ex_human []) 4 ''/out/my model.egg'' True = Inr ?s0"
    by (simp add: ex_worker_def)
  from texture_relocation_dedup [OF i, where imgs = ?imgs]
  obtain paths s where
    run: "relocate_each (ex_env []) ?imgs ?s0 = Inr (paths, s)"
    and len: "length paths = length ?imgs"
    and same: "\<forall>i < length ?imgs. \<forall>j < length ?imgs.
        img_filepath (?imgs ! i) = img_filepath (?imgs ! j) \<longrightarrow> paths ! i = paths ! j"
    and dist: "distinct (map fst (save_render_calls s))"
    and sources: "set (map fst (save_render_calls s)) = set (map img_filepath ?imgs)"
    by blast
  from same have "paths ! 0 = paths ! 2"
    by simp
  moreover from sources have "set (map fst (save_render_calls s)) = {''/src/skin.png'', ''/src/eyes.png''}"
    by (auto simp: ex_image_def ex_image_eyes_def)
  ultimately show ?thesis
    using w run len dist by auto
qed

text \<open>
  Claim C5 fails on the code: \<^verbatim>\<open>__init__\<close> sets \<^verbatim>\<open>self._use_rel_paths = True\<close> and never
  reads its parameter \<^verbatim>\<open>use_rel_paths\<close>, so the absolute branch of
  \<^verbatim>\<open>_copy_texture_to_new_location\<close> is never taken.
\<close>

lemma init_ignores_use_rel_paths:
  "init env human weight_precision filepath use_rel_paths =
   init env human weight_precision filepath True"
  by (simp add: init_def)

text \<open>
  A worker constructed with the option disabled has it enabled, and returns the
  relative path \<^verbatim>\<open>textures/skin.png\<close> for the image \<^verbatim>\<open>/src/skin.png\<close>, not the absolute
  path \<^verbatim>\<open>/out/textures/skin.png\<close>.
\<close>

theorem relative_path_option_ignored:
  "and_then (ex_worker [ex_body] False) (\<lambda>s.
     and_then (copy_texture_to_new_location (ex_env [ex_body]) (ex_image ''sRGB'') s) (\<lambda>(p, s').
       Inr (self_use_rel_paths s, p, map snd (save_render_calls s')))) =
   Inr (True, ''textures/skin.png'', [''/out/textures/skin.png''])"
  by code_simp

section \<open>The writers only append to the output stream\<close>




lemma appends_to_py_print: "appends_to s (py_print line s)"
  by (simp add: appends_to_def py_print_def split: option.splits)



subsection \<open>Rules for composed writers\<close>













subsection \<open>The writers of the armature\<close>




subsection \<open>The writers of the geometry\<close>






subsection \<open>The writers of the texture and material records\<close>








section \<open>Claims on unrecognised and incomplete scene data\<close>

lemma get_image_format_sRGB:
  "img_colorspace_name img = ''sRGB'' \<Longrightarrow>
   get_image_format img = Inr (if img_use_alpha img then ''RGBA'' else ''RGB'')"
  by (simp add: get_image_format_def)

lemma get_image_format_unrecognised:
  "img_colorspace_name img \<noteq> ''sRGB'' \<Longrightarrow> get_image_format img = Inl NameError"
  by (simp add: get_image_format_def)

text \<open>
  Claim C9 fails on the code. For an image in the colour space \<^verbatim>\<open>Linear\<close> the function
  \<^verbatim>\<open>_get_image_format\<close> raises NameError where it builds its diagnostic (it reads the
  unbound name \<^verbatim>\<open>colorspace_settings\<close>), and the export of a scene with such a texture
  ends with that exception instead of continuing.
\<close>

theorem unrecognised_colorspace_raises:
  "get_image_format (ex_image ''Linear'') = Inl NameError \<and>
   and_then (ex_worker [ex_linear] True) (produce_egg (ex_env [ex_linear])) = Inl NameError"
  by code_simp

text \<open>
  Claim C10 fails on the code. \<^verbatim>\<open>_mesh_to_weight_dict\<close> makes an entry only for a vertex
  with a vertex group in range, so for a vertex in no group the lookup
  \<^verbatim>\<open>weight_dict[vertex.index]\<close> of \<^verbatim>\<open>_write_vertexPool\<close> raises KeyError; for a vertex
  on no face corner \<^verbatim>\<open>_uv_from_vert_set\<close> reads its unbound loop variable. Both
  exceptions end the export.
\<close>

theorem vertex_pool_raises:
  "snd (mesh_to_weight_dict ex_loose) = [(0, [(1, 1)]), (1, [(1, 1)])] \<and>
   and_then (ex_worker [ex_loose] True)
     (\<lambda>s. write_vertexPool ex_loose 0 (s\<lparr>self_egg_fp := Some []\<rparr>)) = Inl KeyError \<and>
   and_then (ex_worker [ex_loose] True) (produce_egg (ex_env [ex_loose])) = Inl KeyError \<and>
   and_then (ex_worker [ex_isolated] True)
     (\<lambda>s. write_vertexPool ex_isolated 0 (s\<lparr>self_egg_fp := Some []\<rparr>)) = Inl UnboundLocalError \<and>
   and_then (ex_worker [ex_isolated] True) (produce_egg (ex_env [ex_isolated])) =
     Inl UnboundLocalError"
  by code_simp

section \<open>Claim on the material records\<close>




end
